theory Spec2Isabelle
  imports Main
begin

section \<open>gochat: the avatar resolution chain of avatar.go\<close>

text \<open>
  The development embeds \<^verbatim>\<open>avatar.go\<close> of the chat server: the \<^verbatim>\<open>Avatar\<close>
  interface, its three strategies and the chain \<^verbatim>\<open>TryAvatars\<close>. A Go result
  \<^verbatim>\<open>(string, error)\<close> is a pair of a string and an optional error, \<open>None\<close> being
  Go's \<^verbatim>\<open>nil\<close>. Go strings are byte sequences, as \<open>string\<close> is here.
\<close>

subsection \<open>Chat users and errors\<close>

text \<open>
  \<^verbatim>\<open>ChatUser\<close> is used by avatar.go only through its two methods
  \<^verbatim>\<open>UniqueID()\<close> and \<^verbatim>\<open>AvatarURL()\<close>; a user is the pair of the two values.
\<close>

record ChatUser =
  UniqueID :: string
  AvatarURL :: string

text \<open>
  \<^verbatim>\<open>ErrNoAvatarURL\<close> is the one error value avatar.go declares. Every other value of
  Go's \<^verbatim>\<open>error\<close> interface (what \<^verbatim>\<open>ioutil.ReadDir\<close> or a further strategy
  may return) is an \<open>OtherError\<close> with its message.
\<close>

datatype error = ErrNoAvatarURL | OtherError string

subsection \<open>The Go library functions avatar.go calls\<close>

text \<open>
  \<^verbatim>\<open>os.FileInfo\<close>, restricted to the two methods the code calls.
\<close>

record FileInfo =
  Name :: string
  IsDir :: bool

text \<open>
  The file system is what \<^verbatim>\<open>ioutil.ReadDir\<close> answers for each directory name:
  either an error or the list of entries, in the order the call returns them.
\<close>

type_synonym FileSystem = "string \<Rightarrow> error + FileInfo list"

definition ReadDir :: "FileSystem \<Rightarrow> string \<Rightarrow> error + FileInfo list" where
  "ReadDir fs dirname = fs dirname"

text \<open>
  \<^verbatim>\<open>os.IsPathSeparator\<close> on Unix.
\<close>

definition IsPathSeparator :: "char \<Rightarrow> bool" where
  "IsPathSeparator c = (c = CHR ''/'')"

text \<open>
  \<^verbatim>\<open>filepath.Ext\<close>:
  \<^verbatim>\<open>for i := len(path) - 1; i >= 0 && !os.IsPathSeparator(path[i]); i-- {
       if path[i] == '.' { return path[i:] } }
   return ""\<close>
  The second argument of \<open>Ext_loop\<close> is \<open>i + 1\<close>, so that \<open>0\<close> is the exit \<open>i < 0\<close>.
\<close>

fun Ext_loop :: "string \<Rightarrow> nat \<Rightarrow> string" where
  "Ext_loop path 0 = ''''"
| "Ext_loop path (Suc i) =
     (if IsPathSeparator (path ! i) then ''''
      else if path ! i = CHR ''.'' then drop i path
      else Ext_loop path i)"

definition Ext :: "string \<Rightarrow> string" where
  "Ext path = Ext_loop path (length path)"

text \<open>
  \<^verbatim>\<open>strings.HasSuffix\<close> and \<^verbatim>\<open>strings.TrimSuffix\<close>:
  \<^verbatim>\<open>len(s) >= len(suffix) && s[len(s)-len(suffix):] == suffix\<close> and
  \<^verbatim>\<open>if HasSuffix(s, suffix) { return s[:len(s)-len(suffix)] }; return s\<close>.
\<close>

definition HasSuffix :: "string \<Rightarrow> string \<Rightarrow> bool" where
  "HasSuffix s suffix =
     (length s \<ge> length suffix \<and> drop (length s - length suffix) s = suffix)"

definition TrimSuffix :: "string \<Rightarrow> string \<Rightarrow> string" where
  "TrimSuffix s suffix =
     (if HasSuffix s suffix then take (length s - length suffix) s else s)"

subsection \<open>The strategies\<close>

text \<open>
  An \<^verbatim>\<open>Avatar\<close> interface value is one of the four types of avatar.go that
  implement \<^verbatim>\<open>GetAvatarURL\<close>, or any other implementation, given by what its
  method returns for a file system and a user.
\<close>

datatype Avatar =
    AuthAvatar
  | GravatarAvatar
  | FileSystemAvatar
  | TryAvatars "Avatar list"
  | OtherAvatar "FileSystem \<Rightarrow> ChatUser \<Rightarrow> string \<times> error option"

text \<open>
  \<^verbatim>\<open>func (AuthAvatar) GetAvatarURL(u ChatUser) (string, error)\<close>
\<close>

definition AuthAvatar_GetAvatarURL :: "ChatUser \<Rightarrow> string \<times> error option" where
  "AuthAvatar_GetAvatarURL u =
     (let url = AvatarURL u
      in if url \<noteq> '''' then (url, None) else ('''', Some ErrNoAvatarURL))"

text \<open>
  \<^verbatim>\<open>func (GravatarAvatar) GetAvatarURL(u ChatUser) (string, error)\<close>
\<close>

definition GravatarAvatar_GetAvatarURL :: "ChatUser \<Rightarrow> string \<times> error option" where
  "GravatarAvatar_GetAvatarURL u = (''//www.gravatar.com/avatar/'' @ UniqueID u, None)"

text \<open>
  \<^verbatim>\<open>func (FileSystemAvatar) GetAvatarURL(u ChatUser) (string, error)\<close>: the loop
  over the entries, then the method with its check of the error of \<^verbatim>\<open>ReadDir\<close>.
\<close>

fun FileSystemAvatar_range :: "FileInfo list \<Rightarrow> ChatUser \<Rightarrow> string \<times> error option" where
  "FileSystemAvatar_range [] u = ('''', Some ErrNoAvatarURL)"
| "FileSystemAvatar_range (file # files) u =
     (if IsDir file then FileSystemAvatar_range files u
      else let filename = Name file
           in if UniqueID u = TrimSuffix filename (Ext filename)
              then (''/avatars/'' @ filename, None)
              else FileSystemAvatar_range files u)"

definition FileSystemAvatar_GetAvatarURL ::
  "FileSystem \<Rightarrow> ChatUser \<Rightarrow> string \<times> error option" where
  "FileSystemAvatar_GetAvatarURL fs u =
     (case ReadDir fs ''avatars'' of
        Inl err \<Rightarrow> ('''', Some ErrNoAvatarURL)
      | Inr files \<Rightarrow> FileSystemAvatar_range files u)"

text \<open>
  The method call \<^verbatim>\<open>avatar.GetAvatarURL(u)\<close> on an interface value dispatches on
  its type. \<open>TryAvatars_range\<close> is the loop of
  \<^verbatim>\<open>func (a TryAvatars) GetAvatarURL(u ChatUser) (string, error)\<close>.
\<close>

fun GetAvatarURL :: "Avatar \<Rightarrow> FileSystem \<Rightarrow> ChatUser \<Rightarrow> string \<times> error option"
  and TryAvatars_range :: "Avatar list \<Rightarrow> FileSystem \<Rightarrow> ChatUser \<Rightarrow> string \<times> error option"
where
  "GetAvatarURL AuthAvatar fs u = AuthAvatar_GetAvatarURL u"
| "GetAvatarURL GravatarAvatar fs u = GravatarAvatar_GetAvatarURL u"
| "GetAvatarURL FileSystemAvatar fs u = FileSystemAvatar_GetAvatarURL fs u"
| "GetAvatarURL (TryAvatars a) fs u = TryAvatars_range a fs u"
| "GetAvatarURL (OtherAvatar impl) fs u = impl fs u"
| "TryAvatars_range [] fs u = ('''', Some ErrNoAvatarURL)"
| "TryAvatars_range (avatar # rest) fs u =
     (let (url, err) = GetAvatarURL avatar fs u
      in if err = None then (url, None) else TryAvatars_range rest fs u)"

text \<open>
  The strategies avatar.go itself declares, and the chains built from them.
\<close>

fun declared_strategy :: "Avatar \<Rightarrow> bool" where
  "declared_strategy AuthAvatar = True"
| "declared_strategy GravatarAvatar = True"
| "declared_strategy FileSystemAvatar = True"
| "declared_strategy (TryAvatars a) = list_all declared_strategy a"
| "declared_strategy (OtherAvatar impl) = False"

subsection \<open>The room's live set\<close>

text \<open>
  Modelled from the spec: the Room and its Join and Leave events. main.go calls
  \<^verbatim>\<open>newRoom\<close> and \<^verbatim>\<open>r.run()\<close>, whose file is not among the sources. The
  spec's Room holds the set of live connections; Join adds a connection to it, and
  Leave is ``remove from live set if present''. Broadcast, whose policy on a full
  queue the spec leaves open, is not modelled.
\<close>

record 'c Room =
  live :: "'c set"

text \<open>
  Modelled from the spec: Join(connection), ``add to live set'', of the Room that is
  missing from the sources.
\<close>

definition Join :: "'c Room \<Rightarrow> 'c \<Rightarrow> 'c Room" where
  "Join r c = r\<lparr>live := insert c (live r)\<rparr>"

text \<open>
  Modelled from the spec: Leave(connection), ``remove from live set if present'', of
  the Room that is missing from the sources.
\<close>

definition Leave :: "'c Room \<Rightarrow> 'c \<Rightarrow> 'c Room" where
  "Leave r c = (if c \<in> live r then r\<lparr>live := live r - {c}\<rparr> else r)"

subsection \<open>Concrete inputs\<close>

text \<open>
  A file system in which no directory can be read; a readable \<^verbatim>\<open>avatars\<close>
  directory is added to it by function update. \<open>broken_strategy\<close> is a strategy
  that always fails with an error of its own.
\<close>

definition no_directory :: FileSystem where
  "no_directory dirname = Inl (OtherError ''no such file or directory'')"

definition broken_strategy :: "FileSystem \<Rightarrow> ChatUser \<Rightarrow> string \<times> error option" where
  "broken_strategy fs u = (''broken'', Some (OtherError ''backend down''))"

section \<open>Properties of the loops\<close>

lemma TryAvatars_range_all_fail:
  "(\<forall>s \<in> set a. snd (GetAvatarURL s fs u) \<noteq> None) \<Longrightarrow>
     TryAvatars_range a fs u = ('''', Some ErrNoAvatarURL)"
  by (induction a) (auto split: prod.splits)

lemma TryAvatars_range_first:
  "(\<forall>p \<in> set pre. snd (GetAvatarURL p fs u) \<noteq> None) \<Longrightarrow>
   snd (GetAvatarURL s fs u) = None \<Longrightarrow>
     TryAvatars_range (pre @ s # post) fs u = (fst (GetAvatarURL s fs u), None)"
  by (induction pre) (auto split: prod.splits)

lemma TryAvatars_range_success:
  "snd (TryAvatars_range a fs u) = None \<Longrightarrow>
     \<exists>s \<in> set a. snd (GetAvatarURL s fs u) = None"
  by (induction a) (auto split: prod.splits if_splits)

lemma TryAvatars_range_member:
  "s \<in> set a \<Longrightarrow> snd (GetAvatarURL s fs u) = None \<Longrightarrow>
     snd (TryAvatars_range a fs u) = None"
  by (induction a) (auto split: prod.splits)

lemma TryAvatars_range_cong:
  "(\<forall>s \<in> set a. GetAvatarURL s fs u = GetAvatarURL s fs' u) \<Longrightarrow>
     TryAvatars_range a fs u = TryAvatars_range a fs' u"
  by (induction a) (auto split: prod.splits)

lemma FileSystemAvatar_range_find:
  "FileSystemAvatar_range files u =
     (case List.find (\<lambda>f. \<not> IsDir f \<and> UniqueID u = TrimSuffix (Name f) (Ext (Name f))) files of
        None \<Rightarrow> ('''', Some ErrNoAvatarURL)
      | Some f \<Rightarrow> (''/avatars/'' @ Name f, None))"
  by (induction files) (auto simp: Let_def)

lemma FileSystemAvatar_range_first:
  "(\<forall>g \<in> set pre. IsDir g \<or> UniqueID u \<noteq> TrimSuffix (Name g) (Ext (Name g))) \<Longrightarrow>
   \<not> IsDir f \<Longrightarrow> UniqueID u = TrimSuffix (Name f) (Ext (Name f)) \<Longrightarrow>
     FileSystemAvatar_range (pre @ f # post) u = (''/avatars/'' @ Name f, None)"
  by (induction pre) (auto simp: Let_def)

lemma FileSystemAvatar_range_none:
  "(\<forall>g \<in> set files. IsDir g \<or> UniqueID u \<noteq> TrimSuffix (Name g) (Ext (Name g))) \<Longrightarrow>
     FileSystemAvatar_range files u = ('''', Some ErrNoAvatarURL)"
  by (induction files) (auto simp: Let_def)

lemma FileSystemAvatar_range_success:
  "snd (FileSystemAvatar_range files u) = None \<Longrightarrow>
     \<exists>f \<in> set files. \<not> IsDir f \<and> UniqueID u = TrimSuffix (Name f) (Ext (Name f)) \<and>
        FileSystemAvatar_range files u = (''/avatars/'' @ Name f, None)"
  by (induction files) (auto simp: Let_def split: if_splits)

lemma FileSystemAvatar_range_filter:
  "FileSystemAvatar_range (filter (\<lambda>f. \<not> IsDir f) files) u = FileSystemAvatar_range files u"
  by (induction files) (auto simp: Let_def)

text \<open>Evaluation of the library functions on the file names used below.\<close>

lemma Ext_u42_png: "Ext ''u42.png'' = ''.png''"
  by (simp add: Ext_def IsPathSeparator_def)

lemma Ext_u42_jpg: "Ext ''u42.jpg'' = ''.jpg''"
  by (simp add: Ext_def IsPathSeparator_def)

lemma stem_u42_png: "TrimSuffix ''u42.png'' (Ext ''u42.png'') = ''u42''"
  by (simp add: Ext_u42_png TrimSuffix_def HasSuffix_def)

lemma stem_u42_jpg: "TrimSuffix ''u42.jpg'' (Ext ''u42.jpg'') = ''u42''"
  by (simp add: Ext_u42_jpg TrimSuffix_def HasSuffix_def)

lemma TryAvatars_range_failed:
  "snd (TryAvatars_range a fs u) \<noteq> None \<Longrightarrow>
     \<forall>s \<in> set a. snd (GetAvatarURL s fs u) \<noteq> None"
proof
  fix s
  assume failed: "snd (TryAvatars_range a fs u) \<noteq> None" and s: "s \<in> set a"
  show "snd (GetAvatarURL s fs u) \<noteq> None"
  proof
    assume "snd (GetAvatarURL s fs u) = None"
    with s have "snd (TryAvatars_range a fs u) = None"
      by (rule TryAvatars_range_member)
    with failed show False by contradiction
  qed
qed

section \<open>The chain \<^verbatim>\<open>TryAvatars\<close>\<close>

text \<open>
  Claim C1. For every list of strategies \<open>a\<close>, file system and user: when \<open>s\<close> is the
  first strategy of \<open>a\<close> that returns a nil error (every strategy before it returns an
  error) and \<open>s\<close> returns \<open>(url, nil)\<close>, the chain returns \<open>(url, nil)\<close>; the chain
  returns the error \<^verbatim>\<open>ErrNoAvatarURL\<close> if and only if every strategy of \<open>a\<close> returns
  an error; and whenever the chain returns an error the result is
  \<open>("", ErrNoAvatarURL)\<close>, whatever errors the strategies gave.
\<close>

theorem TryAvatars_first_success:
  "(a = pre @ s # post \<longrightarrow>
      (\<forall>p \<in> set pre. snd (GetAvatarURL p fs u) \<noteq> None) \<longrightarrow>
      GetAvatarURL s fs u = (url, None) \<longrightarrow>
      GetAvatarURL (TryAvatars a) fs u = (url, None))
   \<and> (snd (GetAvatarURL (TryAvatars a) fs u) = Some ErrNoAvatarURL
        \<longleftrightarrow> (\<forall>s \<in> set a. snd (GetAvatarURL s fs u) \<noteq> None))
   \<and> (snd (GetAvatarURL (TryAvatars a) fs u) \<noteq> None
        \<longrightarrow> GetAvatarURL (TryAvatars a) fs u = ('''', Some ErrNoAvatarURL))"
proof (intro conjI impI)
  assume "a = pre @ s # post"
    and "\<forall>p \<in> set pre. snd (GetAvatarURL p fs u) \<noteq> None"
    and "GetAvatarURL s fs u = (url, None)"
  then show "GetAvatarURL (TryAvatars a) fs u = (url, None)"
    using TryAvatars_range_first [of pre fs u s post] by simp
next
  show "snd (GetAvatarURL (TryAvatars a) fs u) = Some ErrNoAvatarURL
          \<longleftrightarrow> (\<forall>s \<in> set a. snd (GetAvatarURL s fs u) \<noteq> None)"
  proof
    assume "snd (GetAvatarURL (TryAvatars a) fs u) = Some ErrNoAvatarURL"
    then have "snd (TryAvatars_range a fs u) \<noteq> None" by simp
    then show "\<forall>s \<in> set a. snd (GetAvatarURL s fs u) \<noteq> None"
      by (rule TryAvatars_range_failed)
  next
    assume "\<forall>s \<in> set a. snd (GetAvatarURL s fs u) \<noteq> None"
    then show "snd (GetAvatarURL (TryAvatars a) fs u) = Some ErrNoAvatarURL"
      by (simp add: TryAvatars_range_all_fail)
  qed
next
  assume "snd (GetAvatarURL (TryAvatars a) fs u) \<noteq> None"
  then have "snd (TryAvatars_range a fs u) \<noteq> None" by simp
  then have "\<forall>s \<in> set a. snd (GetAvatarURL s fs u) \<noteq> None"
    by (rule TryAvatars_range_failed)
  then show "GetAvatarURL (TryAvatars a) fs u = ('''', Some ErrNoAvatarURL)"
    by (simp add: TryAvatars_range_all_fail)
qed

theorem TryAvatars_first_success_witness:
  "GetAvatarURL
     (TryAvatars [AuthAvatar, OtherAvatar broken_strategy, GravatarAvatar, FileSystemAvatar])
     no_directory \<lparr>UniqueID = ''u42'', AvatarURL = ''''\<rparr>
   = (''//www.gravatar.com/avatar/u42'', None)
   \<and> snd (GetAvatarURL (TryAvatars [AuthAvatar, OtherAvatar broken_strategy, FileSystemAvatar])
        no_directory \<lparr>UniqueID = ''u42'', AvatarURL = ''''\<rparr>) = Some ErrNoAvatarURL"
proof -
  let ?u = "\<lparr>UniqueID = ''u42'', AvatarURL = ''''\<rparr>"
  have pre: "\<forall>p \<in> set [AuthAvatar, OtherAvatar broken_strategy].
               snd (GetAvatarURL p no_directory ?u) \<noteq> None"
    by (simp add: AuthAvatar_GetAvatarURL_def broken_strategy_def)
  have hit: "GetAvatarURL GravatarAvatar no_directory ?u = (''//www.gravatar.com/avatar/u42'', None)"
    by (simp add: GravatarAvatar_GetAvatarURL_def)
  have all: "\<forall>s \<in> set [AuthAvatar, OtherAvatar broken_strategy, FileSystemAvatar].
               snd (GetAvatarURL s no_directory ?u) \<noteq> None"
    by (simp add: AuthAvatar_GetAvatarURL_def broken_strategy_def
        FileSystemAvatar_GetAvatarURL_def ReadDir_def no_directory_def)
  have split: "[AuthAvatar, OtherAvatar broken_strategy, GravatarAvatar, FileSystemAvatar]
                = [AuthAvatar, OtherAvatar broken_strategy] @ GravatarAvatar # [FileSystemAvatar]"
    by simp
  from TryAvatars_first_success
         [of "[AuthAvatar, OtherAvatar broken_strategy, GravatarAvatar, FileSystemAvatar]"
             "[AuthAvatar, OtherAvatar broken_strategy]" GravatarAvatar "[FileSystemAvatar]"
             no_directory ?u "''//www.gravatar.com/avatar/u42''"]
  have first: "GetAvatarURL
     (TryAvatars [AuthAvatar, OtherAvatar broken_strategy, GravatarAvatar, FileSystemAvatar])
     no_directory ?u = (''//www.gravatar.com/avatar/u42'', None)"
    using split pre hit by (elim conjE) (erule mp [OF mp [OF mp]])
  from TryAvatars_first_success
         [of "[AuthAvatar, OtherAvatar broken_strategy, FileSystemAvatar]"
             "[]" AuthAvatar "[OtherAvatar broken_strategy, FileSystemAvatar]"
             no_directory ?u "''''"]
  have none: "snd (GetAvatarURL (TryAvatars [AuthAvatar, OtherAvatar broken_strategy, FileSystemAvatar])
        no_directory ?u) = Some ErrNoAvatarURL"
    using all by (elim conjE) (erule iffD2)
  from first none show ?thesis by (rule conjI)
qed

text \<open>
  Claim C8. For every user and file system, the empty chain returns
  \<open>("", ErrNoAvatarURL)\<close>.
\<close>

theorem TryAvatars_empty:
  "GetAvatarURL (TryAvatars []) fs u = ('''', Some ErrNoAvatarURL)"
  by simp

section \<open>\<^verbatim>\<open>AuthAvatar\<close>\<close>

text \<open>
  Claim C3. \<^verbatim>\<open>AuthAvatar.GetAvatarURL\<close> returns a nil error if and only if the user's
  \<^verbatim>\<open>AvatarURL()\<close> is not the empty string; it then returns exactly that URL, and
  otherwise \<open>("", ErrNoAvatarURL)\<close>.
\<close>

theorem AuthAvatar_succeeds_iff:
  "(snd (GetAvatarURL AuthAvatar fs u) = None \<longleftrightarrow> AvatarURL u \<noteq> '''')
   \<and> (AvatarURL u \<noteq> '''' \<longrightarrow> GetAvatarURL AuthAvatar fs u = (AvatarURL u, None))
   \<and> (AvatarURL u = '''' \<longrightarrow> GetAvatarURL AuthAvatar fs u = ('''', Some ErrNoAvatarURL))"
  by (simp add: AuthAvatar_GetAvatarURL_def Let_def)

theorem AuthAvatar_succeeds_iff_witness:
  "GetAvatarURL AuthAvatar no_directory \<lparr>UniqueID = ''u42'', AvatarURL = ''//img/u42''\<rparr>
     = (''//img/u42'', None)
   \<and> GetAvatarURL AuthAvatar no_directory \<lparr>UniqueID = ''u42'', AvatarURL = ''''\<rparr>
     = ('''', Some ErrNoAvatarURL)"
  using AuthAvatar_succeeds_iff [of no_directory "\<lparr>UniqueID = ''u42'', AvatarURL = ''//img/u42''\<rparr>"]
        AuthAvatar_succeeds_iff [of no_directory "\<lparr>UniqueID = ''u42'', AvatarURL = ''''\<rparr>"]
  by simp

section \<open>\<^verbatim>\<open>GravatarAvatar\<close>\<close>

text \<open>
  Claim C4. \<^verbatim>\<open>GravatarAvatar.GetAvatarURL\<close> returns a nil error for every user,
  and its URL is computed from the \<^verbatim>\<open>UniqueID()\<close> alone: it is the string
  \<^verbatim>\<open>//www.gravatar.com/avatar/\<close> followed by the identifier, so that two users
  with the same identifier get the same result in any two file systems. A chain that
  has \<^verbatim>\<open>GravatarAvatar\<close> among its strategies returns a nil error, hence never
  \<^verbatim>\<open>ErrNoAvatarURL\<close>; when every strategy before \<^verbatim>\<open>GravatarAvatar\<close> fails, the
  chain returns that URL.
\<close>

theorem GravatarAvatar_never_fails:
  "snd (GetAvatarURL GravatarAvatar fs u) = None
   \<and> fst (GetAvatarURL GravatarAvatar fs u) = ''//www.gravatar.com/avatar/'' @ UniqueID u
   \<and> (UniqueID u = UniqueID u' \<longrightarrow>
        GetAvatarURL GravatarAvatar fs u = GetAvatarURL GravatarAvatar fs' u')
   \<and> (GravatarAvatar \<in> set a \<longrightarrow>
        snd (GetAvatarURL (TryAvatars a) fs u) = None
        \<and> snd (GetAvatarURL (TryAvatars a) fs u) \<noteq> Some ErrNoAvatarURL)
   \<and> (a = pre @ GravatarAvatar # post \<longrightarrow>
        (\<forall>p \<in> set pre. snd (GetAvatarURL p fs u) \<noteq> None) \<longrightarrow>
        GetAvatarURL (TryAvatars a) fs u = (''//www.gravatar.com/avatar/'' @ UniqueID u, None))"
proof -
  have ok: "snd (GetAvatarURL GravatarAvatar fs u) = None"
    by (simp add: GravatarAvatar_GetAvatarURL_def)
  have url: "fst (GetAvatarURL GravatarAvatar fs u) = ''//www.gravatar.com/avatar/'' @ UniqueID u"
    by (simp add: GravatarAvatar_GetAvatarURL_def)
  have same: "GetAvatarURL GravatarAvatar fs u = GetAvatarURL GravatarAvatar fs' u'"
    if "UniqueID u = UniqueID u'"
    using that by (simp add: GravatarAvatar_GetAvatarURL_def)
  have member: "snd (GetAvatarURL (TryAvatars a) fs u) = None
      \<and> snd (GetAvatarURL (TryAvatars a) fs u) \<noteq> Some ErrNoAvatarURL"
    if "GravatarAvatar \<in> set a"
  proof -
    from that ok have "snd (TryAvatars_range a fs u) = None"
      by (rule TryAvatars_range_member)
    then show ?thesis by simp
  qed
  have fallback: "GetAvatarURL (TryAvatars a) fs u
      = (''//www.gravatar.com/avatar/'' @ UniqueID u, None)"
    if chain: "a = pre @ GravatarAvatar # post"
      and failed: "\<forall>p \<in> set pre. snd (GetAvatarURL p fs u) \<noteq> None"
  proof -
    from failed ok
    have "TryAvatars_range (pre @ GravatarAvatar # post) fs u
            = (fst (GetAvatarURL GravatarAvatar fs u), None)"
      by (rule TryAvatars_range_first)
    with chain url show ?thesis by simp
  qed
  from ok url same member fallback show ?thesis
    by blast
qed

theorem GravatarAvatar_never_fails_witness:
  "GetAvatarURL GravatarAvatar no_directory \<lparr>UniqueID = ''u42'', AvatarURL = ''''\<rparr>
     = GetAvatarURL GravatarAvatar (no_directory(''avatars'' := Inr []))
         \<lparr>UniqueID = ''u42'', AvatarURL = ''//img/u42''\<rparr>
   \<and> snd (GetAvatarURL (TryAvatars [GravatarAvatar, AuthAvatar])
        no_directory \<lparr>UniqueID = ''u42'', AvatarURL = ''''\<rparr>) = None
   \<and> GetAvatarURL (TryAvatars [AuthAvatar, FileSystemAvatar, GravatarAvatar])
        (no_directory(''avatars'' := Inr [])) \<lparr>UniqueID = ''u42'', AvatarURL = ''''\<rparr>
       = (''//www.gravatar.com/avatar/u42'', None)"
proof -
  let ?u = "\<lparr>UniqueID = ''u42'', AvatarURL = ''''\<rparr>"
  let ?v = "\<lparr>UniqueID = ''u42'', AvatarURL = ''//img/u42''\<rparr>"
  let ?empty = "no_directory(''avatars'' := Inr [])"
  have same_id: "UniqueID ?u = UniqueID ?v"
    by simp
  have same: "GetAvatarURL GravatarAvatar no_directory ?u = GetAvatarURL GravatarAvatar ?empty ?v"
    using GravatarAvatar_never_fails [of no_directory ?u ?v ?empty "[]" "[]" "[]"] same_id
    by blast
  have member: "GravatarAvatar \<in> set [GravatarAvatar, AuthAvatar]"
    by simp
  have nil: "snd (GetAvatarURL (TryAvatars [GravatarAvatar, AuthAvatar]) no_directory ?u) = None"
    using GravatarAvatar_never_fails
            [of no_directory ?u ?u no_directory "[GravatarAvatar, AuthAvatar]" "[]" "[]"] member
    by blast
  have chain: "[AuthAvatar, FileSystemAvatar, GravatarAvatar]
                 = [AuthAvatar, FileSystemAvatar] @ GravatarAvatar # []"
    by simp
  have failed: "\<forall>p \<in> set [AuthAvatar, FileSystemAvatar]. snd (GetAvatarURL p ?empty ?u) \<noteq> None"
    by (simp add: AuthAvatar_GetAvatarURL_def FileSystemAvatar_GetAvatarURL_def ReadDir_def)
  have "GetAvatarURL (TryAvatars [AuthAvatar, FileSystemAvatar, GravatarAvatar]) ?empty ?u
          = (''//www.gravatar.com/avatar/'' @ UniqueID ?u, None)"
    using GravatarAvatar_never_fails
            [of ?empty ?u ?u ?empty "[AuthAvatar, FileSystemAvatar, GravatarAvatar]"
                "[AuthAvatar, FileSystemAvatar]" "[]"] chain failed
    by blast
  then have fallback:
    "GetAvatarURL (TryAvatars [AuthAvatar, FileSystemAvatar, GravatarAvatar]) ?empty ?u
       = (''//www.gravatar.com/avatar/u42'', None)"
    by simp
  from same nil fallback show ?thesis
    by (intro conjI)
qed

text \<open>
  Claim C9. \<^verbatim>\<open>GravatarAvatar.GetAvatarURL\<close> returns the string
  \<^verbatim>\<open>//www.gravatar.com/avatar/\<close> followed by the unchanged \<^verbatim>\<open>UniqueID()\<close>, with a
  nil error; two users with distinct identifiers get distinct URLs.
\<close>

theorem GravatarAvatar_url:
  "GetAvatarURL GravatarAvatar fs u = (''//www.gravatar.com/avatar/'' @ UniqueID u, None)
   \<and> (UniqueID u \<noteq> UniqueID u' \<longrightarrow>
        fst (GetAvatarURL GravatarAvatar fs u) \<noteq> fst (GetAvatarURL GravatarAvatar fs' u'))"
  by (simp add: GravatarAvatar_GetAvatarURL_def)

theorem GravatarAvatar_url_witness:
  "GetAvatarURL GravatarAvatar no_directory \<lparr>UniqueID = ''u42'', AvatarURL = ''''\<rparr>
     = (''//www.gravatar.com/avatar/u42'', None)
   \<and> fst (GetAvatarURL GravatarAvatar no_directory \<lparr>UniqueID = ''u42'', AvatarURL = ''''\<rparr>)
     \<noteq> fst (GetAvatarURL GravatarAvatar no_directory \<lparr>UniqueID = ''u43'', AvatarURL = ''''\<rparr>)"
  using GravatarAvatar_url [of no_directory "\<lparr>UniqueID = ''u42'', AvatarURL = ''''\<rparr>"
                               "\<lparr>UniqueID = ''u43'', AvatarURL = ''''\<rparr>" no_directory]
  by (simp add: GravatarAvatar_GetAvatarURL_def)

lemma FileSystemAvatar_unreadable:
  "ReadDir fs ''avatars'' = Inl e \<Longrightarrow>
     FileSystemAvatar_GetAvatarURL fs u = ('''', Some ErrNoAvatarURL)"
  by (simp add: FileSystemAvatar_GetAvatarURL_def)

lemma FileSystemAvatar_readable:
  "ReadDir fs ''avatars'' = Inr files \<Longrightarrow>
     FileSystemAvatar_GetAvatarURL fs u = FileSystemAvatar_range files u"
  by (simp add: FileSystemAvatar_GetAvatarURL_def)

lemma FileSystemAvatar_range_failed:
  "snd (FileSystemAvatar_range files u) \<noteq> None \<Longrightarrow>
     FileSystemAvatar_range files u = ('''', Some ErrNoAvatarURL)"
  by (induction files) (auto simp: Let_def split: if_splits)

lemma FileSystemAvatar_range_match:
  "f \<in> set files \<Longrightarrow> \<not> IsDir f \<Longrightarrow> UniqueID u = TrimSuffix (Name f) (Ext (Name f)) \<Longrightarrow>
     snd (FileSystemAvatar_range files u) = None"
  by (induction files) (auto simp: Let_def)

lemma stem_u42: "TrimSuffix ''u42'' (Ext ''u42'') = ''u42''"
  by (simp add: Ext_def IsPathSeparator_def TrimSuffix_def HasSuffix_def)

section \<open>\<^verbatim>\<open>FileSystemAvatar\<close>\<close>

text \<open>
  Claim C2. \<^verbatim>\<open>FileSystemAvatar.GetAvatarURL\<close> returns a nil error if and only if the
  \<^verbatim>\<open>avatars\<close> directory can be read and its listing has an entry that is not a
  directory and whose name without its extension is the user's \<^verbatim>\<open>UniqueID()\<close>; the
  URL is then \<^verbatim>\<open>/avatars/\<close> followed by the name of such an entry. In every other
  case, and in particular when the directory cannot be read, whatever the error of
  \<^verbatim>\<open>ReadDir\<close>, the result is \<open>("", ErrNoAvatarURL)\<close>.
\<close>

theorem FileSystemAvatar_succeeds_iff:
  "(snd (GetAvatarURL FileSystemAvatar fs u) = None \<longleftrightarrow>
      (\<exists>files. ReadDir fs ''avatars'' = Inr files \<and>
         (\<exists>f \<in> set files. \<not> IsDir f \<and> TrimSuffix (Name f) (Ext (Name f)) = UniqueID u)))
   \<and> (snd (GetAvatarURL FileSystemAvatar fs u) = None \<longrightarrow>
      (\<exists>files. ReadDir fs ''avatars'' = Inr files \<and>
         (\<exists>f \<in> set files. \<not> IsDir f \<and> TrimSuffix (Name f) (Ext (Name f)) = UniqueID u \<and>
            GetAvatarURL FileSystemAvatar fs u = (''/avatars/'' @ Name f, None))))
   \<and> (snd (GetAvatarURL FileSystemAvatar fs u) \<noteq> None \<longrightarrow>
        GetAvatarURL FileSystemAvatar fs u = ('''', Some ErrNoAvatarURL))
   \<and> (ReadDir fs ''avatars'' = Inl e \<longrightarrow>
        GetAvatarURL FileSystemAvatar fs u = ('''', Some ErrNoAvatarURL))"
proof (cases "ReadDir fs ''avatars''")
  case (Inl e')
  then show ?thesis
    by (simp add: FileSystemAvatar_unreadable)
next
  case (Inr files)
  have run: "GetAvatarURL FileSystemAvatar fs u = FileSystemAvatar_range files u"
    using Inr by (simp add: FileSystemAvatar_readable)
  have hit: "snd (FileSystemAvatar_range files u) = None \<Longrightarrow>
      \<exists>f \<in> set files. \<not> IsDir f \<and> TrimSuffix (Name f) (Ext (Name f)) = UniqueID u \<and>
         FileSystemAvatar_range files u = (''/avatars/'' @ Name f, None)"
    using FileSystemAvatar_range_success [of files u] by auto
  have found: "\<exists>f \<in> set files. \<not> IsDir f \<and> TrimSuffix (Name f) (Ext (Name f)) = UniqueID u \<Longrightarrow>
      snd (FileSystemAvatar_range files u) = None"
    using FileSystemAvatar_range_match [of _ files u] by auto
  have miss: "snd (FileSystemAvatar_range files u) \<noteq> None \<Longrightarrow>
      FileSystemAvatar_range files u = ('''', Some ErrNoAvatarURL)"
    by (rule FileSystemAvatar_range_failed)
  show ?thesis
    unfolding run using Inr hit found miss by auto
qed

theorem FileSystemAvatar_succeeds_iff_witness:
  "GetAvatarURL FileSystemAvatar
     (no_directory(''avatars'' := Inr [\<lparr>Name = ''u42.png'', IsDir = False\<rparr>]))
     \<lparr>UniqueID = ''u42'', AvatarURL = ''''\<rparr> = (''/avatars/u42.png'', None)
   \<and> GetAvatarURL FileSystemAvatar no_directory \<lparr>UniqueID = ''u42'', AvatarURL = ''''\<rparr>
       = ('''', Some ErrNoAvatarURL)"
proof -
  let ?fs = "no_directory(''avatars'' := Inr [\<lparr>Name = ''u42.png'', IsDir = False\<rparr>])"
  let ?u = "\<lparr>UniqueID = ''u42'', AvatarURL = ''''\<rparr>"
  have listing: "ReadDir ?fs ''avatars'' = Inr [\<lparr>Name = ''u42.png'', IsDir = False\<rparr>]"
    by (simp add: ReadDir_def)
  have unreadable: "ReadDir no_directory ''avatars'' = Inl (OtherError ''no such file or directory'')"
    by (simp add: ReadDir_def no_directory_def)
  have "snd (GetAvatarURL FileSystemAvatar ?fs ?u) = None"
    using FileSystemAvatar_succeeds_iff [of ?fs ?u] listing
    by (simp add: stem_u42_png)
  then have "GetAvatarURL FileSystemAvatar ?fs ?u = (''/avatars/u42.png'', None)"
    using FileSystemAvatar_succeeds_iff [of ?fs ?u] listing by simp
  moreover have "GetAvatarURL FileSystemAvatar no_directory ?u = ('''', Some ErrNoAvatarURL)"
    using FileSystemAvatar_succeeds_iff [of no_directory ?u "OtherError ''no such file or directory''"]
      unreadable by blast
  ultimately show ?thesis by (rule conjI)
qed

text \<open>
  Claim C10. An entry that is a directory is never matched: when every entry whose name
  without extension equals the \<^verbatim>\<open>UniqueID()\<close> is a directory the result is
  \<open>("", ErrNoAvatarURL)\<close>, and removing the directories from the listing does not
  change the result. When several entries that are not directories match, the URL is
  that of the first of them in the order of the listing.
\<close>

theorem FileSystemAvatar_first_file:
  "(ReadDir fs ''avatars'' = Inr files \<longrightarrow>
      (\<forall>f \<in> set files. TrimSuffix (Name f) (Ext (Name f)) = UniqueID u \<longrightarrow> IsDir f) \<longrightarrow>
      GetAvatarURL FileSystemAvatar fs u = ('''', Some ErrNoAvatarURL))
   \<and> (ReadDir fs ''avatars'' = Inr files \<longrightarrow>
        ReadDir fs' ''avatars'' = Inr (filter (\<lambda>f. \<not> IsDir f) files) \<longrightarrow>
        GetAvatarURL FileSystemAvatar fs u = GetAvatarURL FileSystemAvatar fs' u)
   \<and> (ReadDir fs ''avatars'' = Inr (pre @ f # post) \<longrightarrow>
        (\<forall>g \<in> set pre. IsDir g \<or> TrimSuffix (Name g) (Ext (Name g)) \<noteq> UniqueID u) \<longrightarrow>
        \<not> IsDir f \<longrightarrow> TrimSuffix (Name f) (Ext (Name f)) = UniqueID u \<longrightarrow>
        GetAvatarURL FileSystemAvatar fs u = (''/avatars/'' @ Name f, None))"
proof (intro conjI impI)
  assume "ReadDir fs ''avatars'' = Inr files"
    and "\<forall>f \<in> set files. TrimSuffix (Name f) (Ext (Name f)) = UniqueID u \<longrightarrow> IsDir f"
  then have "ReadDir fs ''avatars'' = Inr files"
    and "\<forall>g \<in> set files. IsDir g \<or> UniqueID u \<noteq> TrimSuffix (Name g) (Ext (Name g))"
    by auto
  then show "GetAvatarURL FileSystemAvatar fs u = ('''', Some ErrNoAvatarURL)"
    by (simp add: FileSystemAvatar_readable FileSystemAvatar_range_none)
next
  assume "ReadDir fs ''avatars'' = Inr files"
    and "ReadDir fs' ''avatars'' = Inr (filter (\<lambda>f. \<not> IsDir f) files)"
  then show "GetAvatarURL FileSystemAvatar fs u = GetAvatarURL FileSystemAvatar fs' u"
    by (simp add: FileSystemAvatar_readable FileSystemAvatar_range_filter)
next
  assume "ReadDir fs ''avatars'' = Inr (pre @ f # post)"
    and "\<forall>g \<in> set pre. IsDir g \<or> TrimSuffix (Name g) (Ext (Name g)) \<noteq> UniqueID u"
    and "\<not> IsDir f" and "TrimSuffix (Name f) (Ext (Name f)) = UniqueID u"
  then have "ReadDir fs ''avatars'' = Inr (pre @ f # post)"
    and "\<forall>g \<in> set pre. IsDir g \<or> UniqueID u \<noteq> TrimSuffix (Name g) (Ext (Name g))"
    and "\<not> IsDir f" and "UniqueID u = TrimSuffix (Name f) (Ext (Name f))"
    by auto
  then show "GetAvatarURL FileSystemAvatar fs u = (''/avatars/'' @ Name f, None)"
    by (simp add: FileSystemAvatar_readable FileSystemAvatar_range_first)
qed

theorem FileSystemAvatar_first_file_witness:
  "GetAvatarURL FileSystemAvatar
     (no_directory(''avatars'' :=
        Inr [\<lparr>Name = ''u42'', IsDir = True\<rparr>, \<lparr>Name = ''u42.jpg'', IsDir = False\<rparr>,
             \<lparr>Name = ''u42.png'', IsDir = False\<rparr>]))
     \<lparr>UniqueID = ''u42'', AvatarURL = ''''\<rparr> = (''/avatars/u42.jpg'', None)
   \<and> GetAvatarURL FileSystemAvatar
       (no_directory(''avatars'' := Inr [\<lparr>Name = ''u42.png'', IsDir = True\<rparr>]))
       \<lparr>UniqueID = ''u42'', AvatarURL = ''''\<rparr> = ('''', Some ErrNoAvatarURL)"
proof -
  let ?u = "\<lparr>UniqueID = ''u42'', AvatarURL = ''''\<rparr>"
  let ?dir = "\<lparr>Name = ''u42'', IsDir = True\<rparr>"
  let ?jpg = "\<lparr>Name = ''u42.jpg'', IsDir = False\<rparr>"
  let ?png = "\<lparr>Name = ''u42.png'', IsDir = False\<rparr>"
  let ?fs = "no_directory(''avatars'' := Inr [?dir, ?jpg, ?png])"
  let ?only_dir = "no_directory(''avatars'' := Inr [\<lparr>Name = ''u42.png'', IsDir = True\<rparr>])"
  have listing: "ReadDir ?fs ''avatars'' = Inr ([?dir] @ ?jpg # [?png])"
    by (simp add: ReadDir_def)
  have before: "\<forall>g \<in> set [?dir]. IsDir g \<or> TrimSuffix (Name g) (Ext (Name g)) \<noteq> UniqueID ?u"
    by simp
  have regular: "\<not> IsDir ?jpg" by simp
  have match: "TrimSuffix (Name ?jpg) (Ext (Name ?jpg)) = UniqueID ?u"
    by (simp add: stem_u42_jpg)
  have first: "GetAvatarURL FileSystemAvatar ?fs ?u = (''/avatars/'' @ Name ?jpg, None)"
    using FileSystemAvatar_first_file [of ?fs "[]" ?u ?fs "[?dir]" ?jpg "[?png]"]
      listing before regular match by blast
  have listing': "ReadDir ?only_dir ''avatars'' = Inr [\<lparr>Name = ''u42.png'', IsDir = True\<rparr>]"
    by (simp add: ReadDir_def)
  have dirs: "\<forall>f \<in> set [\<lparr>Name = ''u42.png'', IsDir = True\<rparr>].
                TrimSuffix (Name f) (Ext (Name f)) = UniqueID ?u \<longrightarrow> IsDir f"
    by simp
  have none: "GetAvatarURL FileSystemAvatar ?only_dir ?u = ('''', Some ErrNoAvatarURL)"
    using FileSystemAvatar_first_file
            [of ?only_dir "[\<lparr>Name = ''u42.png'', IsDir = True\<rparr>]" ?u ?only_dir "[]" ?jpg "[]"]
      listing' dirs by blast
  from first none show ?thesis by simp
qed

section \<open>The chain of the three strategies\<close>

text \<open>
  Claim C5, as stated, fails: with \<^verbatim>\<open>u42.jpg\<close> and \<^verbatim>\<open>u42.png\<close> both in the
  directory, the listing contains the regular file \<^verbatim>\<open>u42.png\<close> and the chain
  resolves to \<^verbatim>\<open>/avatars/u42.jpg\<close>.
\<close>

theorem chain_u42_counterexample:
  "AvatarURL \<lparr>UniqueID = ''u42'', AvatarURL = ''''\<rparr> = ''''
   \<and> UniqueID \<lparr>UniqueID = ''u42'', AvatarURL = ''''\<rparr> = ''u42''
   \<and> ReadDir (no_directory(''avatars'' :=
         Inr [\<lparr>Name = ''u42.jpg'', IsDir = False\<rparr>, \<lparr>Name = ''u42.png'', IsDir = False\<rparr>]))
        ''avatars''
       = Inr [\<lparr>Name = ''u42.jpg'', IsDir = False\<rparr>, \<lparr>Name = ''u42.png'', IsDir = False\<rparr>]
   \<and> \<lparr>Name = ''u42.png'', IsDir = False\<rparr>
       \<in> set [\<lparr>Name = ''u42.jpg'', IsDir = False\<rparr>, \<lparr>Name = ''u42.png'', IsDir = False\<rparr>]
   \<and> GetAvatarURL (TryAvatars [AuthAvatar, FileSystemAvatar, GravatarAvatar])
        (no_directory(''avatars'' :=
           Inr [\<lparr>Name = ''u42.jpg'', IsDir = False\<rparr>, \<lparr>Name = ''u42.png'', IsDir = False\<rparr>]))
        \<lparr>UniqueID = ''u42'', AvatarURL = ''''\<rparr>
       = (''/avatars/u42.jpg'', None)
   \<and> GetAvatarURL (TryAvatars [AuthAvatar, FileSystemAvatar, GravatarAvatar])
        (no_directory(''avatars'' :=
           Inr [\<lparr>Name = ''u42.jpg'', IsDir = False\<rparr>, \<lparr>Name = ''u42.png'', IsDir = False\<rparr>]))
        \<lparr>UniqueID = ''u42'', AvatarURL = ''''\<rparr>
       \<noteq> (''/avatars/u42.png'', None)"
  by (simp add: ReadDir_def AuthAvatar_GetAvatarURL_def FileSystemAvatar_GetAvatarURL_def
      stem_u42_jpg)

text \<open>
  Claim C5, amended. For a user with \<^verbatim>\<open>AvatarURL() = ""\<close> and
  \<^verbatim>\<open>UniqueID() = "u42"\<close>, and an \<^verbatim>\<open>avatars\<close> directory whose listing contains the
  regular file \<^verbatim>\<open>u42.png\<close> with no entry before it that is not a directory and
  whose name without extension is \<^verbatim>\<open>u42\<close>, the chain of \<^verbatim>\<open>AuthAvatar\<close>,
  \<^verbatim>\<open>FileSystemAvatar\<close> and \<^verbatim>\<open>GravatarAvatar\<close> resolves to
  \<^verbatim>\<open>/avatars/u42.png\<close> with a nil error.
\<close>

theorem chain_u42_first_match:
  assumes "AvatarURL u = ''''" and "UniqueID u = ''u42''"
    and "ReadDir fs ''avatars'' = Inr (pre @ \<lparr>Name = ''u42.png'', IsDir = False\<rparr> # post)"
    and "\<forall>g \<in> set pre. IsDir g \<or> TrimSuffix (Name g) (Ext (Name g)) \<noteq> ''u42''"
  shows "GetAvatarURL (TryAvatars [AuthAvatar, FileSystemAvatar, GravatarAvatar]) fs u
           = (''/avatars/u42.png'', None)"
proof -
  have auth: "AuthAvatar_GetAvatarURL u = ('''', Some ErrNoAvatarURL)"
    using assms(1) by (simp add: AuthAvatar_GetAvatarURL_def)
  have "FileSystemAvatar_range (pre @ \<lparr>Name = ''u42.png'', IsDir = False\<rparr> # post) u
          = (''/avatars/'' @ Name \<lparr>Name = ''u42.png'', IsDir = False\<rparr>, None)"
    using assms(2,4) by (intro FileSystemAvatar_range_first) (auto simp: stem_u42_png)
  then have local: "FileSystemAvatar_GetAvatarURL fs u = (''/avatars/u42.png'', None)"
    using assms(3) by (simp add: FileSystemAvatar_readable)
  show ?thesis
    by (simp add: auth local)
qed

theorem chain_u42_first_match_witness:
  "GetAvatarURL (TryAvatars [AuthAvatar, FileSystemAvatar, GravatarAvatar])
     (no_directory(''avatars'' :=
        Inr [\<lparr>Name = ''u42'', IsDir = True\<rparr>, \<lparr>Name = ''u42.png'', IsDir = False\<rparr>,
             \<lparr>Name = ''u43.png'', IsDir = False\<rparr>]))
     \<lparr>UniqueID = ''u42'', AvatarURL = ''''\<rparr> = (''/avatars/u42.png'', None)"
proof -
  let ?u = "\<lparr>UniqueID = ''u42'', AvatarURL = ''''\<rparr>"
  let ?dir = "\<lparr>Name = ''u42'', IsDir = True\<rparr>"
  let ?png = "\<lparr>Name = ''u42.png'', IsDir = False\<rparr>"
  let ?other = "\<lparr>Name = ''u43.png'', IsDir = False\<rparr>"
  let ?fs = "no_directory(''avatars'' := Inr [?dir, ?png, ?other])"
  have no_url: "AvatarURL ?u = ''''" and uid: "UniqueID ?u = ''u42''"
    by simp_all
  have listing: "ReadDir ?fs ''avatars'' = Inr ([?dir] @ ?png # [?other])"
    by (simp add: ReadDir_def)
  have before: "\<forall>g \<in> set [?dir]. IsDir g \<or> TrimSuffix (Name g) (Ext (Name g)) \<noteq> ''u42''"
    by simp
  show ?thesis
    by (rule chain_u42_first_match [OF no_url uid listing before])
qed

lemma declared_strategy_same_listing:
  "declared_strategy a \<Longrightarrow> ReadDir fs ''avatars'' = ReadDir fs' ''avatars'' \<Longrightarrow>
     GetAvatarURL a fs u = GetAvatarURL a fs' u"
proof (induction a)
  case (TryAvatars chain)
  then have "\<forall>s \<in> set chain. GetAvatarURL s fs u = GetAvatarURL s fs' u"
    by (simp add: list_all_iff)
  then have "TryAvatars_range chain fs u = TryAvatars_range chain fs' u"
    by (rule TryAvatars_range_cong)
  then show ?case
    by simp
qed (simp_all add: FileSystemAvatar_GetAvatarURL_def)

section \<open>Determinism\<close>

text \<open>
  Claim C6. No \<^verbatim>\<open>GetAvatarURL\<close> of avatar.go writes anything: each is a function of
  the user and of the file system it reads. For every strategy declared in avatar.go,
  and every chain built from them, two calls with the same user in two file systems
  with the same answer of \<^verbatim>\<open>ReadDir("avatars")\<close> return the same result; for
  \<^verbatim>\<open>AuthAvatar\<close> and \<^verbatim>\<open>GravatarAvatar\<close> the result is the same in any two file
  systems.
\<close>

theorem GetAvatarURL_deterministic:
  "(declared_strategy a \<longrightarrow> ReadDir fs ''avatars'' = ReadDir fs' ''avatars'' \<longrightarrow>
      GetAvatarURL a fs u = GetAvatarURL a fs' u)
   \<and> GetAvatarURL AuthAvatar fs u = GetAvatarURL AuthAvatar fs' u
   \<and> GetAvatarURL GravatarAvatar fs u = GetAvatarURL GravatarAvatar fs' u"
proof (intro conjI impI)
  assume "declared_strategy a" and "ReadDir fs ''avatars'' = ReadDir fs' ''avatars''"
  then show "GetAvatarURL a fs u = GetAvatarURL a fs' u"
    by (rule declared_strategy_same_listing)
qed simp_all

theorem GetAvatarURL_deterministic_witness:
  "GetAvatarURL (TryAvatars [AuthAvatar, FileSystemAvatar, GravatarAvatar])
     (no_directory(''avatars'' := Inr [\<lparr>Name = ''u42.png'', IsDir = False\<rparr>]))
     \<lparr>UniqueID = ''u42'', AvatarURL = ''''\<rparr>
   = GetAvatarURL (TryAvatars [AuthAvatar, FileSystemAvatar, GravatarAvatar])
     (no_directory(''avatars'' := Inr [\<lparr>Name = ''u42.png'', IsDir = False\<rparr>],
                   ''templates'' := Inr [\<lparr>Name = ''chat.html'', IsDir = False\<rparr>]))
     \<lparr>UniqueID = ''u42'', AvatarURL = ''''\<rparr>"
proof -
  let ?chain = "TryAvatars [AuthAvatar, FileSystemAvatar, GravatarAvatar]"
  let ?fs = "no_directory(''avatars'' := Inr [\<lparr>Name = ''u42.png'', IsDir = False\<rparr>])"
  let ?fs' = "no_directory(''avatars'' := Inr [\<lparr>Name = ''u42.png'', IsDir = False\<rparr>],
                   ''templates'' := Inr [\<lparr>Name = ''chat.html'', IsDir = False\<rparr>])"
  have declared: "declared_strategy ?chain"
    by simp
  have same: "ReadDir ?fs ''avatars'' = ReadDir ?fs' ''avatars''"
    by (simp add: ReadDir_def)
  have differ: "ReadDir ?fs ''templates'' \<noteq> ReadDir ?fs' ''templates''"
    by (simp add: ReadDir_def no_directory_def)
  show ?thesis
    using GetAvatarURL_deterministic [of ?chain ?fs ?fs' "\<lparr>UniqueID = ''u42'', AvatarURL = ''''\<rparr>"]
      declared same by blast
qed

section \<open>The room\<close>

text \<open>
  Claim C7. For every room and every connection, processing Leave for the connection
  twice gives the same room as processing it once, and Leave for a connection that is
  not in the live set returns the room unchanged. Leave is total: it has no error
  result.
\<close>

theorem Leave_idempotent:
  "Leave (Leave r c) c = Leave r c
   \<and> (c \<notin> live r \<longrightarrow> Leave r c = r)
   \<and> live (Leave r c) = live r - {c}"
  by (simp add: Leave_def)

theorem Leave_idempotent_witness:
  "Leave (Leave \<lparr>live = {1, 2 :: nat}\<rparr> 1) 1 = Leave \<lparr>live = {1, 2 :: nat}\<rparr> 1
   \<and> Leave \<lparr>live = {1, 2 :: nat}\<rparr> 3 = \<lparr>live = {1, 2 :: nat}\<rparr>"
  using Leave_idempotent [of "\<lparr>live = {1, 2 :: nat}\<rparr>" 1]
        Leave_idempotent [of "\<lparr>live = {1, 2 :: nat}\<rparr>" 3]
  by simp

end
